theory Spec2Isabelle
  imports Main
begin

section \<open>JavaScript values\<close>

text \<open>
  The program of \<^verbatim>\<open>script.js\<close> works on values parsed from JSON and on the
  \<^verbatim>\<open>undefined\<close> that a missing property reads as. A string is the sequence of its
  code units, here bytes: the seven characters the program escapes are ASCII, and text
  outside ASCII (the icons of the templates) is written as its UTF-8 bytes, none of which
  is an ASCII character. \<open>JNum\<close> holds the numbers that are integers printed in plain
  decimal (the safe integers, and \<open>-0\<close> as \<open>0\<close>); fractions and exponents are outside
  the model. An object is the list of its own properties, looked up with \<open>map_of\<close>.
\<close>

datatype jsval =
    JUndefined
  | JNull
  | JBool bool
  | JNum int
  | JStr string
  | JArr "jsval list"
  | JObj "(string \<times> jsval) list"

text \<open>An exception: the \<^verbatim>\<open>name\<close> and \<^verbatim>\<open>message\<close> of the error object thrown.\<close>

datatype js_error = JsError (name: string) (message: string)

text \<open>\<^verbatim>\<open>new Error(m)\<close>, and the \<^verbatim>\<open>TypeError\<close> the engine throws with wording \<open>m\<close>.\<close>

definition Error :: "string \<Rightarrow> js_error" where
  "Error m = JsError ''Error'' m"

definition TypeError :: "string \<Rightarrow> js_error" where
  "TypeError m = JsError ''TypeError'' m"

text \<open>Truthiness, as \<^verbatim>\<open>!x\<close> and \<^verbatim>\<open>x || y\<close> test it.\<close>

fun truthy :: "jsval \<Rightarrow> bool" where
  "truthy JUndefined = False"
| "truthy JNull = False"
| "truthy (JBool b) = b"
| "truthy (JNum n) = (n \<noteq> 0)"
| "truthy (JStr s) = (s \<noteq> [])"
| "truthy (JArr xs) = True"
| "truthy (JObj ps) = True"

text \<open>\<^verbatim>\<open>a || b\<close> on values.\<close>

definition js_or :: "jsval \<Rightarrow> jsval \<Rightarrow> jsval" where
  "js_or a b = (if truthy a then a else b)"

fun nullish :: "jsval \<Rightarrow> bool" where
  "nullish JUndefined = True"
| "nullish JNull = True"
| "nullish v = False"

text \<open>
  Reading a property \<^verbatim>\<open>v.key\<close>. The program reads \<^verbatim>\<open>id\<close>, \<^verbatim>\<open>name\<close>,
  \<^verbatim>\<open>email\<close>, \<^verbatim>\<open>address\<close>, \<^verbatim>\<open>username\<close> and \<^verbatim>\<open>city\<close>: none of them is a
  property of the prototypes of objects, arrays, strings, numbers or booleans, so only an
  object's own properties answer, and everything else reads as \<^verbatim>\<open>undefined\<close>.
  \<open>read v key\<close> is what the read gives on a value other than \<^verbatim>\<open>null\<close> and
  \<^verbatim>\<open>undefined\<close>; on these two the read throws a \<^verbatim>\<open>TypeError\<close> (the message is
  V8's wording).
\<close>

definition read :: "jsval \<Rightarrow> string \<Rightarrow> jsval" where
  "read v key =
     (case v of
        JObj ps \<Rightarrow> (case map_of ps key of None \<Rightarrow> JUndefined | Some x \<Rightarrow> x)
      | _ \<Rightarrow> JUndefined)"

definition get_prop :: "jsval \<Rightarrow> string \<Rightarrow> js_error + jsval" where
  "get_prop v key =
     (if nullish v then
        Inl (TypeError (''Cannot read properties of ''
               @ (if v = JNull then ''null'' else ''undefined'')
               @ '' (reading '' @ [CHR 0x27] @ key @ [CHR 0x27] @ '')''))
      else Inr (read v key))"

text \<open>\<^verbatim>\<open>v?.key\<close>: \<^verbatim>\<open>undefined\<close> on \<^verbatim>\<open>null\<close> and \<^verbatim>\<open>undefined\<close>, the read otherwise.\<close>

definition get_prop_opt :: "jsval \<Rightarrow> string \<Rightarrow> js_error + jsval" where
  "get_prop_opt v key = (if nullish v then Inr JUndefined else get_prop v key)"

text \<open>\<^verbatim>\<open>Array.isArray(v)\<close>, and the elements of an array in order.\<close>

fun is_array :: "jsval \<Rightarrow> bool" where
  "is_array (JArr xs) = True"
| "is_array v = False"

fun elements :: "jsval \<Rightarrow> jsval list" where
  "elements (JArr xs) = xs"
| "elements v = []"

subsection \<open>Conversion to a string\<close>

definition digit_char :: "nat \<Rightarrow> char" where
  "digit_char d = ''0123456789'' ! (d mod 10)"

fun string_of_nat :: "nat \<Rightarrow> string" where
  "string_of_nat n =
     (if n < 10 then [digit_char n] else string_of_nat (n div 10) @ [digit_char (n mod 10)])"

declare string_of_nat.simps [simp del]

definition string_of_int :: "int \<Rightarrow> string" where
  "string_of_int i = (if i < 0 then ''-'' @ string_of_nat (nat (- i)) else string_of_nat (nat i))"

text \<open>\<^verbatim>\<open>Array.prototype.join\<close> on strings already converted.\<close>

fun join :: "string \<Rightarrow> string list \<Rightarrow> string" where
  "join sep [] = []"
| "join sep [x] = x"
| "join sep (x # y # ys) = x @ sep @ join sep (y # ys)"

text \<open>
  \<^verbatim>\<open>String(v)\<close> and the conversion of \<^verbatim>\<open>${v}\<close> in a template; \<open>None\<close> when the
  conversion throws. An array joins its elements with commas, \<^verbatim>\<open>null\<close> and
  \<^verbatim>\<open>undefined\<close> elements as the empty string. An object parsed from JSON holds no
  function: when it has an own property \<^verbatim>\<open>toString\<close>, that property is not callable,
  the inherited \<^verbatim>\<open>valueOf\<close> (or an own one, not callable either) gives no primitive,
  and the conversion throws; any other object converts to \<^verbatim>\<open>[object Object]\<close>.
\<close>

fun to_primitive_string :: "jsval \<Rightarrow> string option" where
  "to_primitive_string JUndefined = Some ''undefined''"
| "to_primitive_string JNull = Some ''null''"
| "to_primitive_string (JBool b) = Some (if b then ''true'' else ''false'')"
| "to_primitive_string (JNum n) = Some (string_of_int n)"
| "to_primitive_string (JStr s) = Some s"
| "to_primitive_string (JArr xs) =
     map_option (join '','')
       (those (map (\<lambda>x. if nullish x then Some [] else to_primitive_string x) xs))"
| "to_primitive_string (JObj ps) =
     (if ''toString'' \<in> set (map fst ps) then None else Some ''[object Object]'')"

definition to_string :: "jsval \<Rightarrow> js_error + string" where
  "to_string v =
     (case to_primitive_string v of
        None \<Rightarrow> Inl (TypeError ''Cannot convert object to primitive value'')
      | Some s \<Rightarrow> Inr s)"

section \<open>escapeHTML\<close>

text \<open>\<^verbatim>\<open>s.replace(/c/g, r)\<close> for a single character \<open>c\<close>: every occurrence, left to right.\<close>

definition replace_all :: "char \<Rightarrow> string \<Rightarrow> string \<Rightarrow> string" where
  "replace_all c r s = concat (map (\<lambda>x. if x = c then r else [x]) s)"

text \<open>The chain of seven replacements of lines 249 to 256, in the order of the source.\<close>

definition escape_chain :: "string \<Rightarrow> string" where
  "escape_chain s =
     replace_all (CHR ''/'') ''&#47;''
       (replace_all (CHR 0x60) ''&#96;''
         (replace_all (CHR 0x27) ''&#039;''
           (replace_all (CHR 0x22) ''&quot;''
             (replace_all (CHR ''>'') ''&gt;''
               (replace_all (CHR ''<'') ''&lt;''
                 (replace_all (CHR ''&'') ''&amp;'' s))))))"

text \<open>
  \<^verbatim>\<open>escapeHTML(unsafe)\<close>: the empty string for a falsy argument, the chain on
  \<^verbatim>\<open>String(unsafe)\<close> otherwise.
\<close>

definition escapeHTML :: "jsval \<Rightarrow> js_error + string" where
  "escapeHTML unsafe =
     (if \<not> truthy unsafe then Inr []
      else (case to_string unsafe of Inl e \<Rightarrow> Inl e | Inr s \<Rightarrow> Inr (escape_chain s)))"

section \<open>The display surface\<close>

text \<open>
  What the document holds. \<open>Text t\<close> is the content a \<^verbatim>\<open>textContent = t\<close> leaves: it is
  shown as it is, never parsed. \<open>Markup m\<close> is the content an \<^verbatim>\<open>innerHTML = m\<close> leaves:
  the browser parses \<open>m\<close> as HTML. An element has a tag, a class name and children.
\<close>

datatype node =
    Text string
  | Markup string
  | Element string string "node list"

definition set_textContent :: "string \<Rightarrow> node list" where
  "set_textContent t = (if t = [] then [] else [Text t])"

definition set_innerHTML :: "string \<Rightarrow> node list" where
  "set_innerHTML m = (if m = [] then [] else [Markup m])"

text \<open>
  The calls the program makes on the page, the timer and the network, in the order it
  makes them.
\<close>

datatype call =
    LoadingShown
  | LoadingHidden
  | ErrorShown string
  | ErrorHidden
  | ContainerHTML string
  | ContainerAppend "node list"
  | TimerSet nat
  | FetchGet string "(string \<times> string) list"
  | RequestAborted
  | TimerCleared

text \<open>
  The three regions of lines 13 to 15: whether \<^verbatim>\<open>#loading\<close> and \<^verbatim>\<open>#errorMessage\<close>
  carry the class \<^verbatim>\<open>hidden\<close>, the text of the error banner, the children of
  \<^verbatim>\<open>#userContainer\<close>; and the calls made so far.
\<close>

record page =
  loading_hidden :: bool
  error_hidden :: bool
  error_text :: string
  container :: "node list"
  calls :: "call list"

definition showLoading :: "page \<Rightarrow> page" where
  "showLoading p = p\<lparr>loading_hidden := False, calls := calls p @ [LoadingShown]\<rparr>"

definition hideLoading :: "page \<Rightarrow> page" where
  "hideLoading p = p\<lparr>loading_hidden := True, calls := calls p @ [LoadingHidden]\<rparr>"

definition showError :: "string \<Rightarrow> page \<Rightarrow> page" where
  "showError msg p =
     p\<lparr>error_text := msg, error_hidden := False, calls := calls p @ [ErrorShown msg]\<rparr>"

definition hideError :: "page \<Rightarrow> page" where
  "hideError p = p\<lparr>error_hidden := True, calls := calls p @ [ErrorHidden]\<rparr>"

definition clearContainer :: "page \<Rightarrow> page" where
  "clearContainer p = p\<lparr>container := set_innerHTML [], calls := calls p @ [ContainerHTML []]\<rparr>"

definition no_users_markup :: string where
  "no_users_markup =
     ''<p class='' @ [CHR 0x22] @ ''error'' @ [CHR 0x22] @ ''>No users found to display.</p>''"

definition showNoUsersMessage :: "page \<Rightarrow> page" where
  "showNoUsersMessage p =
     p\<lparr>container := set_innerHTML no_users_markup,
       calls := calls p @ [ContainerHTML no_users_markup]\<rparr>"

section \<open>createUserCard and displayUsers\<close>

text \<open>The icons of the templates, as UTF-8 bytes.\<close>

definition icon_user :: string where
  "icon_user = [CHR 0xF0, CHR 0x9F, CHR 0x91, CHR 0xA4]"

definition icon_email :: string where
  "icon_email = [CHR 0xF0, CHR 0x9F, CHR 0x93, CHR 0xA7]"

definition icon_city :: string where
  "icon_city = [CHR 0xF0, CHR 0x9F, CHR 0x8F, CHR 0x99, CHR 0xEF, CHR 0xB8, CHR 0x8F]"

definition icon_username :: string where
  "icon_username = [CHR 0xF0, CHR 0x9F, CHR 0x94, CHR 0xB0]"

definition warning_marker :: string where
  "warning_marker = [CHR 0xE2, CHR 0x9A, CHR 0xA0, CHR 0xEF, CHR 0xB8, CHR 0x8F]"

text \<open>
  The card of lines 137 to 171 once its five strings are known: \<open>i\<close> is what line 143
  interpolates after \<^verbatim>\<open>ID: \<close> into the text of the badge, \<open>n\<close>, \<open>e\<close>, \<open>c\<close> and \<open>u\<close>
  are what lines 154 to 163 interpolate into the markup of the heading and of the three
  paragraphs.
\<close>

definition user_card :: "string \<Rightarrow> string \<Rightarrow> string \<Rightarrow> string \<Rightarrow> string \<Rightarrow> node" where
  "user_card i n e c u =
     Element ''div'' ''user-card''
       [Element ''span'' ''user-id'' (set_textContent (''ID: '' @ i)),
        Element ''h3'' [] (set_innerHTML (icon_user @ '' '' @ n)),
        Element ''p'' [] (set_innerHTML (''<i>'' @ icon_email @ ''</i> Email: '' @ e)),
        Element ''p'' [] (set_innerHTML (''<i>'' @ icon_city @ ''</i> City: '' @ c)),
        Element ''p'' [] (set_innerHTML (''<i>'' @ icon_username @ ''</i> Username: '' @ u))]"

text \<open>Sequencing of steps that may throw: the first exception ends the run.\<close>

definition and_then :: "js_error + 'a \<Rightarrow> ('a \<Rightarrow> js_error + 'b) \<Rightarrow> js_error + 'b" where
  "and_then m f = (case m of Inl e \<Rightarrow> Inl e | Inr x \<Rightarrow> f x)"

text \<open>
  \<^verbatim>\<open>createUserCard(user)\<close>, each read, conversion and call of \<^verbatim>\<open>escapeHTML\<close> in the
  order of lines 143 to 163. Creating and appending the elements cannot throw, so the
  card is assembled at the end.
\<close>

definition createUserCard :: "jsval \<Rightarrow> js_error + node" where
  "createUserCard user =
     and_then (get_prop user ''id'') (\<lambda>uid.
     and_then (to_string (js_or uid (JStr ''N/A''))) (\<lambda>i.
     and_then (get_prop user ''name'') (\<lambda>name0.
     and_then (get_prop user ''email'') (\<lambda>email0.
     and_then (get_prop user ''address'') (\<lambda>address.
     and_then (get_prop_opt address ''city'') (\<lambda>city0.
     and_then (get_prop user ''username'') (\<lambda>username0.
     and_then (escapeHTML (js_or name0 (JStr ''Name not available''))) (\<lambda>n.
     and_then (escapeHTML (js_or email0 (JStr ''Email not available''))) (\<lambda>e.
     and_then (escapeHTML (js_or city0 (JStr ''City not available''))) (\<lambda>c.
     and_then (escapeHTML (js_or username0 (JStr ''Username not available''))) (\<lambda>u.
     Inr (user_card i n e c u))))))))))))"

text \<open>
  The \<^verbatim>\<open>forEach\<close> of lines 120 to 123: the cards are appended to the fragment one by
  one; an exception leaves the loop.
\<close>

fun forEach_card :: "jsval list \<Rightarrow> node list \<Rightarrow> js_error + node list" where
  "forEach_card [] fragment = Inr fragment"
| "forEach_card (user # rest) fragment =
     (case createUserCard user of
        Inl e \<Rightarrow> Inl e
      | Inr userCard \<Rightarrow> forEach_card rest (fragment @ [userCard]))"

text \<open>
  \<^verbatim>\<open>displayUsers(users)\<close> on the elements of an array (an array is truthy, so
  \<^verbatim>\<open>!users\<close> is false). The result is the exception thrown, if any, and the page as
  the call leaves it: when a card throws, the container stays cleared and the fragment
  is lost.
\<close>

definition displayUsers :: "jsval list \<Rightarrow> page \<Rightarrow> js_error option \<times> page" where
  "displayUsers users p =
     (let p1 = p\<lparr>container := set_innerHTML [], calls := calls p @ [ContainerHTML []]\<rparr> in
      if length users = 0 then (None, showNoUsersMessage p1)
      else (case forEach_card users [] of
              Inl e \<Rightarrow> (Some e, p1)
            | Inr fragment \<Rightarrow>
                (None, p1\<lparr>container := container p1 @ fragment,
                           calls := calls p1 @ [ContainerAppend fragment]\<rparr>)))"

section \<open>fetchUsers\<close>

text \<open>
  A response: its status and reason phrase, and what \<^verbatim>\<open>response.json()\<close> settles to,
  the parsed value or the exception it rejects with.
\<close>

record response =
  status :: nat
  statusText :: string
  json :: "js_error + jsval"

text \<open>\<^verbatim>\<open>response.ok\<close>: the status is in the range 200 to 299.\<close>

definition ok :: "response \<Rightarrow> bool" where
  "ok r = (200 \<le> status r \<and> status r \<le> 299)"

text \<open>
  What happens to the one request: the timer of line 62 runs while \<^verbatim>\<open>fetch\<close> is still
  pending (no response came within the delay), or \<^verbatim>\<open>fetch\<close> rejects with an error
  before (a \<^verbatim>\<open>TypeError\<close> when the transport fails), or it resolves with a response.
\<close>

datatype fetch_event =
    TimerFirst
  | Rejects js_error
  | Resolves response

definition apiUrl :: string where
  "apiUrl = ''https://jsonplaceholder.typicode.com/users''"

definition timeout_ms :: nat where
  "timeout_ms = 10000"

text \<open>
  The exception \<^verbatim>\<open>fetch\<close> rejects with once \<^verbatim>\<open>controller.abort()\<close> has run: a
  \<^verbatim>\<open>DOMException\<close> named \<^verbatim>\<open>AbortError\<close> (the message is V8's wording).
\<close>

definition abort_error :: js_error where
  "abort_error = JsError ''AbortError'' ''signal is aborted without reason''"

text \<open>
  The \<^verbatim>\<open>try\<close> block of lines 59 to 87: the timer is set and the request sent; the
  timer's callback aborts the request; a response clears the timer, and is checked.
\<close>

definition fetchUsers_try :: "fetch_event \<Rightarrow> page \<Rightarrow> (js_error + jsval list) \<times> page" where
  "fetchUsers_try ev p =
     (let p1 = p\<lparr>calls := calls p @
                 [TimerSet timeout_ms,
                  FetchGet apiUrl [(''Accept'', ''application/json''),
                                   (''Content-Type'', ''application/json'')]]\<rparr> in
      case ev of
        TimerFirst \<Rightarrow> (Inl abort_error, p1\<lparr>calls := calls p1 @ [RequestAborted]\<rparr>)
      | Rejects e \<Rightarrow> (Inl e, p1)
      | Resolves r \<Rightarrow>
          (let p2 = p1\<lparr>calls := calls p1 @ [TimerCleared]\<rparr> in
           if \<not> ok r then
             (Inl (Error (''HTTP '' @ string_of_nat (status r) @ '': '' @ statusText r)), p2)
           else (case json r of
                   Inl e \<Rightarrow> (Inl e, p2)
                 | Inr users \<Rightarrow>
                     if \<not> is_array users then
                       (Inl (Error ''Invalid data format: Expected an array of users''), p2)
                     else (Inr (elements users), p2))))"

text \<open>The \<^verbatim>\<open>catch\<close> block of lines 89 to 99.\<close>

definition fetchUsers_catch :: "js_error \<Rightarrow> js_error" where
  "fetchUsers_catch error =
     (if name error = ''AbortError'' then
        Error ''Request timeout: The server took too long to respond''
      else if name error = ''TypeError'' then
        Error ''Network error: Please check your internet connection''
      else Error (''Failed to fetch users: '' @ message error))"

definition fetchUsers :: "fetch_event \<Rightarrow> page \<Rightarrow> (js_error + jsval list) \<times> page" where
  "fetchUsers ev p =
     (case fetchUsers_try ev p of
        (Inl error, p') \<Rightarrow> (Inl (fetchUsers_catch error), p')
      | (Inr users, p') \<Rightarrow> (Inr users, p'))"

section \<open>handleError and fetchAndDisplayUsers\<close>

fun starts_with :: "string \<Rightarrow> string \<Rightarrow> bool" where
  "starts_with s [] = True"
| "starts_with [] (c # cs) = False"
| "starts_with (x # xs) (c # cs) = (x = c \<and> starts_with xs cs)"

text \<open>\<^verbatim>\<open>s.includes(sub)\<close>: \<open>sub\<close> occurs in \<open>s\<close> at some position.\<close>

fun str_includes :: "string \<Rightarrow> string \<Rightarrow> bool" where
  "str_includes [] sub = (sub = [])"
| "str_includes (x # xs) sub = (starts_with (x # xs) sub \<or> str_includes xs sub)"

definition handleError :: "js_error \<Rightarrow> page \<Rightarrow> page" where
  "handleError error p =
     (let userMessage =
        (if str_includes (message error) ''Failed to fetch'' then
           ''Unable to connect to the server. Please check your internet connection.''
         else if str_includes (message error) ''HTTP'' then
           ''Server error. Please try again later.''
         else if str_includes (message error) ''timeout'' then
           ''Request timed out. Please check your connection and try again.''
         else ''An unexpected error occurred. Please try again.'')
      in showError (warning_marker @ '' '' @ userMessage) p)"

text \<open>
  \<^verbatim>\<open>fetchAndDisplayUsers()\<close>: the \<^verbatim>\<open>try\<close> block fetches and displays, the
  \<^verbatim>\<open>catch\<close> block handles what either of them throws, the \<^verbatim>\<open>finally\<close> block
  hides the loading indicator.
\<close>

definition fetchAndDisplayUsers :: "fetch_event \<Rightarrow> page \<Rightarrow> page" where
  "fetchAndDisplayUsers ev p =
     (let p1 = clearContainer (hideError (showLoading p));
          p2 = (case fetchUsers ev p1 of
                  (Inl error, p') \<Rightarrow> handleError error p'
                | (Inr users, p') \<Rightarrow>
                    (case displayUsers users p' of
                       (None, p'') \<Rightarrow> p''
                     | (Some error, p'') \<Rightarrow> handleError error p''))
      in hideLoading p2)"

text \<open>A page at rest: nothing loading, no error shown, no card, no call made yet.\<close>

definition idle_page :: page where
  "idle_page =
     \<lparr>loading_hidden = True, error_hidden = True, error_text = [], container = [],
      calls = []\<rparr>"

section \<open>Decoding character references\<close>

text \<open>
  Modelled from the spec: the standard decoder that the escaped text is read back with
  is no code of the program. It is the decoder of HTML character references, for the
  named references \<^verbatim>\<open>amp\<close>, \<^verbatim>\<open>lt\<close>, \<^verbatim>\<open>gt\<close>, \<^verbatim>\<open>quot\<close> and \<^verbatim>\<open>apos\<close> and the
  decimal references \<^verbatim>\<open>&#N;\<close> of one byte, each closed by its semicolon; an ampersand
  that starts none of them stays as it is.
\<close>

definition named_references :: "(string \<times> char) list" where
  "named_references =
     [(''amp;'', CHR ''&''), (''lt;'', CHR ''<''), (''gt;'', CHR ''>''),
      (''quot;'', CHR 0x22), (''apos;'', CHR 0x27)]"

definition is_digit :: "char \<Rightarrow> bool" where
  "is_digit c = (c \<in> set ''0123456789'')"

definition digit_value :: "char \<Rightarrow> nat" where
  "digit_value c = of_char c - 48"

definition decimal_value :: "string \<Rightarrow> nat" where
  "decimal_value ds = foldl (\<lambda>a d. 10 * a + digit_value d) 0 ds"

text \<open>
  The reference that starts right after an ampersand, if any: the character it stands
  for and the number of characters it takes after the ampersand.
\<close>

definition decode_reference :: "string \<Rightarrow> (char \<times> nat) option" where
  "decode_reference s =
     (case find (\<lambda>(nm, ch). starts_with s nm) named_references of
        Some (nm, ch) \<Rightarrow> Some (ch, length nm)
      | None \<Rightarrow>
          (case s of
             [] \<Rightarrow> None
           | h # t \<Rightarrow>
               (let ds = takeWhile is_digit t in
                if h = CHR ''#'' \<and> ds \<noteq> [] \<and> starts_with (drop (length ds) t) '';''
                   \<and> decimal_value ds < 256
                then Some (char_of (decimal_value ds), length ds + 2)
                else None)))"

text \<open>\<open>unescape k s\<close> decodes \<open>s\<close> after leaving out its first \<open>k\<close> characters.\<close>

fun unescape :: "nat \<Rightarrow> string \<Rightarrow> string" where
  "unescape k [] = []"
| "unescape (Suc k) (x # xs) = unescape k xs"
| "unescape 0 (x # xs) =
     (if x = CHR ''&'' then
        (case decode_reference xs of
           Some (ch, len) \<Rightarrow> ch # unescape len xs
         | None \<Rightarrow> x # unescape 0 xs)
      else x # unescape 0 xs)"

definition unescapeHTML :: "string \<Rightarrow> string" where
  "unescapeHTML s = unescape 0 s"

section \<open>The substitution, character by character\<close>

text \<open>
  The entity that stands for each of the seven characters, and the character itself for
  any other: the one-pass substitution that the chain of replacements is compared with.
\<close>

definition escape_char :: "char \<Rightarrow> string" where
  "escape_char c =
     (if c = CHR ''&'' then ''&amp;''
      else if c = CHR ''<'' then ''&lt;''
      else if c = CHR ''>'' then ''&gt;''
      else if c = CHR 0x22 then ''&quot;''
      else if c = CHR 0x27 then ''&#039;''
      else if c = CHR 0x60 then ''&#96;''
      else if c = CHR ''/'' then ''&#47;''
      else [c])"

text \<open>The six escaped characters other than the ampersand.\<close>

definition markup_chars :: "char set" where
  "markup_chars = {CHR ''<'', CHR ''>'', CHR 0x22, CHR 0x27, CHR 0x60, CHR ''/''}"

section \<open>Properties of the escaping\<close>

lemma replace_all_Nil: "replace_all c r [] = []"
  by (simp add: replace_all_def)

lemma replace_all_append: "replace_all c r (a @ b) = replace_all c r a @ replace_all c r b"
  by (simp add: replace_all_def)

lemma replace_all_Cons:
  "replace_all c r (x # xs) = (if x = c then r else [x]) @ replace_all c r xs"
  by (simp add: replace_all_def)

lemma escape_chain_Nil: "escape_chain [] = []"
  by (simp add: escape_chain_def replace_all_Nil)

text \<open>
  On one character the seven passes give its entity: the ampersand goes first, and no
  later pass replaces a character of an entity written by an earlier one.
\<close>

lemma escape_chain_single: "escape_chain [c] = escape_char c"
  by (simp add: escape_chain_def escape_char_def replace_all_Cons replace_all_Nil)

lemma escape_chain_append: "escape_chain (a @ b) = escape_chain a @ escape_chain b"
  by (simp add: escape_chain_def replace_all_append)

lemma escape_chain_Cons: "escape_chain (c # s) = escape_char c @ escape_chain s"
  using escape_chain_append [of "[c]" s] by (simp add: escape_chain_single)

lemma escape_chain_one_pass: "escape_chain s = concat (map escape_char s)"
  by (induction s) (simp_all add: escape_chain_Nil escape_chain_Cons)

lemma escape_char_no_markup: "set (escape_char c) \<inter> markup_chars = {}"
  by (simp add: escape_char_def markup_chars_def)

lemma escape_chain_no_markup: "set (escape_chain s) \<inter> markup_chars = {}"
  by (induction s)
    (simp_all add: escape_chain_Nil escape_chain_Cons Int_Un_distrib2 escape_char_no_markup)

lemma escape_chain_plain:
  "set s \<inter> insert (CHR ''&'') markup_chars = {} \<Longrightarrow> escape_chain s = s"
  by (induction s)
    (auto simp: escape_chain_Nil escape_chain_Cons escape_char_def markup_chars_def)

lemma char_of_references:
  "char_of (39::nat) = CHR 0x27" "char_of (96::nat) = CHR 0x60" "char_of (47::nat) = CHR ''/''"
  by code_simp+

lemma unescape_escape_char: "unescape 0 (escape_char c @ t) = c # unescape 0 t"
  by (simp add: escape_char_def decode_reference_def named_references_def is_digit_def
      decimal_value_def digit_value_def char_of_references)

lemma unescape_escape_chain: "unescape 0 (escape_chain s) = s"
  by (induction s) (simp_all add: escape_chain_Nil escape_chain_Cons unescape_escape_char)

lemma to_string_JStr: "to_string (JStr s) = Inr s"
  by (simp add: to_string_def)

lemma escapeHTML_JStr: "escapeHTML (JStr s) = Inr (escape_chain s)"
  by (simp add: escapeHTML_def to_string_def escape_chain_Nil)

lemma escapeHTML_no_markup:
  assumes "escapeHTML v = Inr s"
  shows "set s \<inter> markup_chars = {}"
proof (cases "truthy v")
  case True
  with assms obtain t where "s = escape_chain t"
    by (auto simp: escapeHTML_def split: sum.splits)
  then show ?thesis
    by (simp add: escape_chain_no_markup)
next
  case False
  with assms have "s = []"
    by (simp add: escapeHTML_def)
  then show ?thesis
    by simp
qed

lemma escapeHTML_fallbacks:
  "escapeHTML (JStr ''Name not available'') = Inr ''Name not available''"
  "escapeHTML (JStr ''Email not available'') = Inr ''Email not available''"
  "escapeHTML (JStr ''City not available'') = Inr ''City not available''"
  "escapeHTML (JStr ''Username not available'') = Inr ''Username not available''"
  by (simp_all add: escapeHTML_JStr escape_chain_plain markup_chars_def)

text \<open>
  Claim C1, as amended. For every string \<open>s\<close>, \<^verbatim>\<open>escapeHTML\<close> returns the chain of
  replacements on \<open>s\<close>, which is the substitution of each character by its entity in one
  pass; the result holds none of the six characters \<open>< > " ' ` /\<close>; and the decoder of
  character references gives \<open>s\<close> back from it. The ampersand is the exception to the
  first part: every entity starts with one, so the result holds ampersands, each of them
  the first character of an entity.
\<close>

theorem escapeHTML_one_pass_round_trip:
  "escapeHTML (JStr s) = Inr (escape_chain s)
   \<and> escape_chain s = concat (map escape_char s)
   \<and> set (escape_chain s) \<inter> markup_chars = {}
   \<and> unescapeHTML (escape_chain s) = s"
  by (simp add: escapeHTML_JStr escape_chain_no_markup unescapeHTML_def unescape_escape_chain
      escape_chain_one_pass [symmetric])

text \<open>
  As first stated the property fails on the ampersand: the string \<^verbatim>\<open>a&b\<close> holds one,
  and so does its escaped form \<^verbatim>\<open>a&amp;b\<close>.
\<close>

theorem escapeHTML_output_holds_ampersand:
  "escapeHTML (JStr ''a&b'') = Inr ''a&amp;b''
   \<and> CHR ''&'' \<in> set ''a&b'' \<and> CHR ''&'' \<in> set ''a&amp;b''"
  by (simp add: escapeHTML_def to_string_def escape_chain_def replace_all_def)

section \<open>Properties of the cards\<close>

lemma get_prop_opt_read: "get_prop_opt v key = Inr (read v key)"
  by (cases v) (simp_all add: get_prop_opt_def get_prop_def read_def)

lemma user_card_inject:
  "user_card i n e c u = user_card i' n' e' c' u'
     \<longleftrightarrow> i = i' \<and> n = n' \<and> e = e' \<and> c = c' \<and> u = u'"
  by (auto simp: user_card_def set_textContent_def set_innerHTML_def)

lemma and_then_Inr: "and_then m f = Inr y \<longleftrightarrow> (\<exists>x. m = Inr x \<and> f x = Inr y)"
  by (cases m) (simp_all add: and_then_def)

lemma createUserCard_nullish: "nullish user \<Longrightarrow> \<exists>e. createUserCard user = Inl e"
  by (simp add: createUserCard_def get_prop_def and_then_def)

text \<open>On a value other than \<^verbatim>\<open>null\<close> and \<^verbatim>\<open>undefined\<close> no read throws.\<close>

lemma createUserCard_read:
  "\<not> nullish user \<Longrightarrow>
   createUserCard user =
     and_then (to_string (js_or (read user ''id'') (JStr ''N/A''))) (\<lambda>i.
     and_then (escapeHTML (js_or (read user ''name'') (JStr ''Name not available''))) (\<lambda>n.
     and_then (escapeHTML (js_or (read user ''email'') (JStr ''Email not available''))) (\<lambda>e.
     and_then (escapeHTML (js_or (read (read user ''address'') ''city'')
                            (JStr ''City not available''))) (\<lambda>c.
     and_then (escapeHTML (js_or (read user ''username'') (JStr ''Username not available'')))
       (\<lambda>u. Inr (user_card i n e c u))))))"
  by (simp add: createUserCard_def get_prop_def get_prop_opt_read and_then_def)

text \<open>The five strings of a card that was returned.\<close>

lemma createUserCard_card:
  assumes "createUserCard user = Inr (user_card i n e c u)"
  shows "\<not> nullish user"
    and "to_string (js_or (read user ''id'') (JStr ''N/A'')) = Inr i"
    and "escapeHTML (js_or (read user ''name'') (JStr ''Name not available'')) = Inr n"
    and "escapeHTML (js_or (read user ''email'') (JStr ''Email not available'')) = Inr e"
    and "escapeHTML (js_or (read (read user ''address'') ''city'')
           (JStr ''City not available'')) = Inr c"
    and "escapeHTML (js_or (read user ''username'') (JStr ''Username not available'')) = Inr u"
proof -
  show nn: "\<not> nullish user"
    using assms createUserCard_nullish [of user] by auto
  from assms createUserCard_read [OF nn]
  obtain i' n' e' c' u' where
    "to_string (js_or (read user ''id'') (JStr ''N/A'')) = Inr i'"
    "escapeHTML (js_or (read user ''name'') (JStr ''Name not available'')) = Inr n'"
    "escapeHTML (js_or (read user ''email'') (JStr ''Email not available'')) = Inr e'"
    "escapeHTML (js_or (read (read user ''address'') ''city'')
       (JStr ''City not available'')) = Inr c'"
    "escapeHTML (js_or (read user ''username'') (JStr ''Username not available'')) = Inr u'"
    "user_card i' n' e' c' u' = user_card i n e c u"
    by (auto simp: and_then_Inr)
  then show "to_string (js_or (read user ''id'') (JStr ''N/A'')) = Inr i"
    and "escapeHTML (js_or (read user ''name'') (JStr ''Name not available'')) = Inr n"
    and "escapeHTML (js_or (read user ''email'') (JStr ''Email not available'')) = Inr e"
    and "escapeHTML (js_or (read (read user ''address'') ''city'')
           (JStr ''City not available'')) = Inr c"
    and "escapeHTML (js_or (read user ''username'') (JStr ''Username not available'')) = Inr u"
    by (simp_all add: user_card_inject)
qed

text \<open>
  A card is returned exactly for a value other than \<^verbatim>\<open>null\<close> and \<^verbatim>\<open>undefined\<close>
  whose five fields convert to strings: so for every object whose fields are absent,
  strings, numbers, booleans or \<^verbatim>\<open>null\<close>.
\<close>

lemma createUserCard_returns_iff:
  "(\<exists>card. createUserCard user = Inr card) \<longleftrightarrow>
     \<not> nullish user
     \<and> to_primitive_string (read user ''id'') \<noteq> None
     \<and> to_primitive_string (read user ''name'') \<noteq> None
     \<and> to_primitive_string (read user ''email'') \<noteq> None
     \<and> to_primitive_string (read (read user ''address'') ''city'') \<noteq> None
     \<and> to_primitive_string (read user ''username'') \<noteq> None"
proof (cases "nullish user")
  case True
  then show ?thesis
    using createUserCard_nullish [of user] by auto
next
  case False
  have conv: "(\<exists>s. to_string (js_or v (JStr fb)) = Inr s) \<longleftrightarrow> to_primitive_string v \<noteq> None"
    "(\<exists>s. escapeHTML (js_or v (JStr fb)) = Inr s) \<longleftrightarrow> to_primitive_string v \<noteq> None" for v fb
    by (cases v; auto simp: js_or_def to_string_def escapeHTML_def split: option.splits)+
  have "(\<exists>card. createUserCard user = Inr card) \<longleftrightarrow>
      (\<exists>s. to_string (js_or (read user ''id'') (JStr ''N/A'')) = Inr s)
      \<and> (\<exists>s. escapeHTML (js_or (read user ''name'') (JStr ''Name not available'')) = Inr s)
      \<and> (\<exists>s. escapeHTML (js_or (read user ''email'') (JStr ''Email not available'')) = Inr s)
      \<and> (\<exists>s. escapeHTML (js_or (read (read user ''address'') ''city'')
                 (JStr ''City not available'')) = Inr s)
      \<and> (\<exists>s. escapeHTML (js_or (read user ''username'')
                 (JStr ''Username not available'')) = Inr s)"
    unfolding createUserCard_read [OF False] by (auto simp: and_then_Inr)
  then show ?thesis
    using False by (simp only: conv) simp
qed

lemma string_of_nat_digit: "n < 10 \<Longrightarrow> string_of_nat n = [digit_char n]"
  by (simp add: string_of_nat.simps [of n])

text \<open>The definitions that evaluate \<^verbatim>\<open>createUserCard\<close> on a given record.\<close>

lemmas eval_card =
  createUserCard_def get_prop_def get_prop_opt_def read_def js_or_def and_then_def
  to_string_def escapeHTML_def escape_chain_def replace_all_def string_of_int_def
  digit_char_def TypeError_def

text \<open>
  Claim C5, as amended. Whenever \<^verbatim>\<open>createUserCard\<close> returns a card, each of the five
  fields that is missing from the record (it reads as \<^verbatim>\<open>undefined\<close>; the city is
  missing also when the address is) shows its fixed fallback string: \<^verbatim>\<open>N/A\<close> for the
  id, and \<^verbatim>\<open>Name not available\<close>, \<^verbatim>\<open>Email not available\<close>,
  \<^verbatim>\<open>City not available\<close>, \<^verbatim>\<open>Username not available\<close>. Each field that is present
  and truthy shows its own value: converted to a string for the id, escaped for the
  other four. A field that is present and falsy is not shown: it shows the fallback.
\<close>

theorem createUserCard_missing_and_truthy_fields:
  assumes "createUserCard user = Inr (user_card i n e c u)"
  shows "(read user ''id'' = JUndefined \<longrightarrow> i = ''N/A'')
       \<and> (read user ''name'' = JUndefined \<longrightarrow> n = ''Name not available'')
       \<and> (read user ''email'' = JUndefined \<longrightarrow> e = ''Email not available'')
       \<and> (read (read user ''address'') ''city'' = JUndefined \<longrightarrow> c = ''City not available'')
       \<and> (read user ''username'' = JUndefined \<longrightarrow> u = ''Username not available'')
       \<and> (truthy (read user ''id'') \<longrightarrow> to_string (read user ''id'') = Inr i)
       \<and> (truthy (read user ''name'') \<longrightarrow> escapeHTML (read user ''name'') = Inr n)
       \<and> (truthy (read user ''email'') \<longrightarrow> escapeHTML (read user ''email'') = Inr e)
       \<and> (truthy (read (read user ''address'') ''city'')
            \<longrightarrow> escapeHTML (read (read user ''address'') ''city'') = Inr c)
       \<and> (truthy (read user ''username'') \<longrightarrow> escapeHTML (read user ''username'') = Inr u)"
  using createUserCard_card [OF assms]
  by (auto simp: js_or_def to_string_JStr escapeHTML_fallbacks)

text \<open>
  A record with an id and a name, and no email, address or username: the card shows the
  id, the escaped name and three fallback strings.
\<close>

theorem createUserCard_missing_and_truthy_fields_witness:
  "createUserCard (JObj [(''id'', JNum 7), (''name'', JStr ''Ann <a>'')])
     = Inr (user_card ''7'' ''Ann &lt;a&gt;'' ''Email not available'' ''City not available''
              ''Username not available'')
   \<and> read (JObj [(''id'', JNum 7), (''name'', JStr ''Ann <a>'')]) ''email'' = JUndefined
   \<and> read (read (JObj [(''id'', JNum 7), (''name'', JStr ''Ann <a>'')]) ''address'') ''city''
        = JUndefined
   \<and> read (JObj [(''id'', JNum 7), (''name'', JStr ''Ann <a>'')]) ''username'' = JUndefined
   \<and> truthy (read (JObj [(''id'', JNum 7), (''name'', JStr ''Ann <a>'')]) ''id'')
   \<and> to_string (read (JObj [(''id'', JNum 7), (''name'', JStr ''Ann <a>'')]) ''id'') = Inr ''7''
   \<and> truthy (read (JObj [(''id'', JNum 7), (''name'', JStr ''Ann <a>'')]) ''name'')
   \<and> escapeHTML (read (JObj [(''id'', JNum 7), (''name'', JStr ''Ann <a>'')]) ''name'')
        = Inr ''Ann &lt;a&gt;''"
proof -
  have card: "createUserCard (JObj [(''id'', JNum 7), (''name'', JStr ''Ann <a>'')])
     = Inr (user_card ''7'' ''Ann &lt;a&gt;'' ''Email not available'' ''City not available''
              ''Username not available'')"
    by (simp add: eval_card string_of_nat.simps [of 7])
  from createUserCard_missing_and_truthy_fields [OF card] card show ?thesis
    by (simp add: read_def)
qed

text \<open>
  As first stated (a field that is present is shown instead of the fallback) the property
  fails on an id of 0: the id is present, and the card shows \<^verbatim>\<open>N/A\<close>.
\<close>

theorem createUserCard_zero_id_shows_fallback:
  "read (JObj [(''id'', JNum 0), (''name'', JStr ''Ann'')]) ''id'' = JNum 0
   \<and> createUserCard (JObj [(''id'', JNum 0), (''name'', JStr ''Ann'')])
       = Inr (user_card ''N/A'' ''Ann'' ''Email not available'' ''City not available''
                ''Username not available'')"
  by (simp add: eval_card)

text \<open>
  Claim C8, as amended. Whenever \<^verbatim>\<open>createUserCard\<close> returns a card, the four strings
  interpolated into markup (name, email, city, username) are what \<^verbatim>\<open>escapeHTML\<close>
  returns on the field or its fallback, and hold none of \<open>< > " ' ` /\<close>. The id is not
  passed through \<^verbatim>\<open>escapeHTML\<close>: it is converted to a string and written with
  \<^verbatim>\<open>textContent\<close>, which is not markup.
\<close>

theorem createUserCard_escapes_markup_fields:
  assumes "createUserCard user = Inr (user_card i n e c u)"
  shows "escapeHTML (js_or (read user ''name'') (JStr ''Name not available'')) = Inr n
       \<and> escapeHTML (js_or (read user ''email'') (JStr ''Email not available'')) = Inr e
       \<and> escapeHTML (js_or (read (read user ''address'') ''city'')
            (JStr ''City not available'')) = Inr c
       \<and> escapeHTML (js_or (read user ''username'') (JStr ''Username not available'')) = Inr u
       \<and> set n \<inter> markup_chars = {} \<and> set e \<inter> markup_chars = {}
       \<and> set c \<inter> markup_chars = {} \<and> set u \<inter> markup_chars = {}
       \<and> to_string (js_or (read user ''id'') (JStr ''N/A'')) = Inr i"
  using createUserCard_card [OF assms]
  by (simp add: escapeHTML_no_markup)

text \<open>A record whose name, email, city and username all hold characters of markup.\<close>

theorem createUserCard_escapes_markup_fields_witness:
  "createUserCard
     (JObj [(''id'', JNum 12), (''name'', JStr ''<b>Bo</b>''), (''email'', JStr ''a&b@c.d''),
            (''address'', JObj [(''city'', JStr ''X>Y'')]), (''username'', JStr ''b/o'')])
     = Inr (user_card ''12'' ''&lt;b&gt;Bo&lt;&#47;b&gt;'' ''a&amp;b@c.d'' ''X&gt;Y'' ''b&#47;o'')
   \<and> set ''&lt;b&gt;Bo&lt;&#47;b&gt;'' \<inter> markup_chars = {}
   \<and> set ''a&amp;b@c.d'' \<inter> markup_chars = {}
   \<and> set ''X&gt;Y'' \<inter> markup_chars = {}
   \<and> set ''b&#47;o'' \<inter> markup_chars = {}"
proof -
  have card: "createUserCard
     (JObj [(''id'', JNum 12), (''name'', JStr ''<b>Bo</b>''), (''email'', JStr ''a&b@c.d''),
            (''address'', JObj [(''city'', JStr ''X>Y'')]), (''username'', JStr ''b/o'')])
     = Inr (user_card ''12'' ''&lt;b&gt;Bo&lt;&#47;b&gt;'' ''a&amp;b@c.d'' ''X&gt;Y'' ''b&#47;o'')"
    by (simp add: eval_card string_of_nat.simps [of 12] string_of_nat_digit)
  from createUserCard_escapes_markup_fields [OF card] card show ?thesis
    by simp
qed

text \<open>
  As first stated (all five fields are passed through the escaping function) the property
  fails on the id: an id \<^verbatim>\<open><b>\<close> is written as it is, where \<^verbatim>\<open>escapeHTML\<close> gives
  \<^verbatim>\<open>&lt;b&gt;\<close>.
\<close>

theorem createUserCard_id_not_escaped:
  "createUserCard (JObj [(''id'', JStr ''<b>'')])
     = Inr (user_card ''<b>'' ''Name not available'' ''Email not available''
              ''City not available'' ''Username not available'')
   \<and> escapeHTML (JStr ''<b>'') = Inr ''&lt;b&gt;''"
  by (simp add: eval_card)

text \<open>
  Claim C10. Whenever \<^verbatim>\<open>createUserCard\<close> returns a card, each of the five fields whose
  value is falsy (absent, or present as 0, the empty string, \<^verbatim>\<open>false\<close> or
  \<^verbatim>\<open>null\<close>) shows its fixed fallback string: the card does not tell a falsy value
  that is present from a field that is absent.
\<close>

theorem createUserCard_falsy_fields_show_fallbacks:
  assumes "createUserCard user = Inr (user_card i n e c u)"
  shows "(\<not> truthy (read user ''id'') \<longrightarrow> i = ''N/A'')
       \<and> (\<not> truthy (read user ''name'') \<longrightarrow> n = ''Name not available'')
       \<and> (\<not> truthy (read user ''email'') \<longrightarrow> e = ''Email not available'')
       \<and> (\<not> truthy (read (read user ''address'') ''city'') \<longrightarrow> c = ''City not available'')
       \<and> (\<not> truthy (read user ''username'') \<longrightarrow> u = ''Username not available'')"
  using createUserCard_card [OF assms]
  by (auto simp: js_or_def to_string_JStr escapeHTML_fallbacks)

text \<open>
  A record whose id is 0 and whose name, email, city and username are empty strings: its
  card is the card of the empty record.
\<close>

theorem createUserCard_falsy_fields_show_fallbacks_witness:
  "createUserCard
     (JObj [(''id'', JNum 0), (''name'', JStr []), (''email'', JStr []),
            (''address'', JObj [(''city'', JStr [])]), (''username'', JStr [])])
     = Inr (user_card ''N/A'' ''Name not available'' ''Email not available''
              ''City not available'' ''Username not available'')
   \<and> createUserCard (JObj [])
     = Inr (user_card ''N/A'' ''Name not available'' ''Email not available''
              ''City not available'' ''Username not available'')
   \<and> read (JObj [(''id'', JNum 0), (''name'', JStr []), (''email'', JStr []),
            (''address'', JObj [(''city'', JStr [])]), (''username'', JStr [])]) ''id'' = JNum 0
   \<and> read (read (JObj [(''id'', JNum 0), (''name'', JStr []), (''email'', JStr []),
            (''address'', JObj [(''city'', JStr [])]), (''username'', JStr [])]) ''address'')
        ''city'' = JStr []"
proof -
  have card: "createUserCard
     (JObj [(''id'', JNum 0), (''name'', JStr []), (''email'', JStr []),
            (''address'', JObj [(''city'', JStr [])]), (''username'', JStr [])])
     = Inr (user_card ''N/A'' ''Name not available'' ''Email not available''
              ''City not available'' ''Username not available'')"
    by (simp add: eval_card)
  have empty: "createUserCard (JObj [])
     = Inr (user_card ''N/A'' ''Name not available'' ''Email not available''
              ''City not available'' ''Username not available'')"
    by (simp add: eval_card)
  from createUserCard_falsy_fields_show_fallbacks [OF card] card empty show ?thesis
    by (simp add: read_def)
qed

section \<open>Properties of displayUsers\<close>

text \<open>When every record gives a card, the loop appends the cards in the order of the records.\<close>

lemma forEach_card_all:
  "map createUserCard users = map Inr cards \<Longrightarrow>
   forEach_card users fragment = Inr (fragment @ cards)"
proof (induction users arbitrary: fragment cards)
  case Nil
  then show ?case by simp
next
  case (Cons user rest)
  then obtain card cards' where "cards = card # cards'"
    "createUserCard user = Inr card" "map createUserCard rest = map Inr cards'"
    by (cases cards) auto
  with Cons.IH [of cards' "fragment @ [card]"] show ?case
    by simp
qed

text \<open>When some record throws, so does the loop.\<close>

lemma forEach_card_throws:
  "user \<in> set users \<Longrightarrow> createUserCard user = Inl e \<Longrightarrow>
   \<exists>e'. forEach_card users fragment = Inl e'"
proof (induction users arbitrary: fragment)
  case Nil
  then show ?case by simp
next
  case (Cons a rest)
  show ?case
  proof (cases "createUserCard a")
    case (Inl x)
    then show ?thesis by simp
  next
    case (Inr card)
    with Cons.prems have "user \<in> set rest" by auto
    with Cons.IH [of "fragment @ [card]"] Cons.prems Inr show ?thesis by simp
  qed
qed

lemma no_users_markup_nonempty: "no_users_markup \<noteq> []"
  by (simp add: no_users_markup_def)

lemma displayUsers_Nil:
  "displayUsers [] p =
     (None, p\<lparr>container := [Markup no_users_markup],
              calls := calls p @ [ContainerHTML [], ContainerHTML no_users_markup]\<rparr>)"
  by (simp add: displayUsers_def showNoUsersMessage_def set_innerHTML_def
      no_users_markup_nonempty)

lemma fetchUsers_Resolves_array:
  "ok r \<Longrightarrow> json r = Inr (JArr users) \<Longrightarrow>
   fetchUsers (Resolves r) p =
     (Inr users, p\<lparr>calls := calls p @
        [TimerSet timeout_ms,
         FetchGet apiUrl [(''Accept'', ''application/json''),
                          (''Content-Type'', ''application/json'')],
         TimerCleared]\<rparr>)"
  by (simp add: fetchUsers_def fetchUsers_try_def)

text \<open>
  Claim C7, as amended. For every non-empty list of records each of which gives a card,
  \<^verbatim>\<open>displayUsers\<close> clears the container and appends exactly the cards of the records,
  one per record and in the order of the list, in one call, and throws nothing. When
  some record of the list gives no card (\<^verbatim>\<open>createUserCard\<close> throws on it),
  \<^verbatim>\<open>displayUsers\<close> throws and shows no card at all: the container stays cleared.
\<close>

theorem displayUsers_one_card_per_record:
  assumes "users \<noteq> []"
  shows "(map createUserCard users = map Inr cards \<longrightarrow>
            displayUsers users p =
              (None, p\<lparr>container := cards,
                       calls := calls p @ [ContainerHTML [], ContainerAppend cards]\<rparr>))
       \<and> ((\<exists>user \<in> set users. \<exists>e. createUserCard user = Inl e) \<longrightarrow>
            (\<exists>e. displayUsers users p =
              (Some e, p\<lparr>container := [], calls := calls p @ [ContainerHTML []]\<rparr>)))"
proof (intro conjI impI)
  assume "map createUserCard users = map Inr cards"
  then have "forEach_card users [] = Inr cards"
    using forEach_card_all [of users cards "[]"] by simp
  with assms show "displayUsers users p =
      (None, p\<lparr>container := cards,
               calls := calls p @ [ContainerHTML [], ContainerAppend cards]\<rparr>)"
    by (simp add: displayUsers_def set_innerHTML_def)
next
  assume "\<exists>user \<in> set users. \<exists>e. createUserCard user = Inl e"
  then obtain e' where "forEach_card users [] = Inl e'"
    using forEach_card_throws [of _ users _ "[]"] by blast
  with assms show "\<exists>e. displayUsers users p =
      (Some e, p\<lparr>container := [], calls := calls p @ [ContainerHTML []]\<rparr>)"
    by (simp add: displayUsers_def set_innerHTML_def)
qed

text \<open>
  Three records, named C, A and B in this order: three cards, in this order. The same
  three records followed by \<^verbatim>\<open>null\<close>: an exception and no card.
\<close>

theorem displayUsers_one_card_per_record_witness:
  "map createUserCard
       [JObj [(''name'', JStr ''C'')], JObj [(''name'', JStr ''A'')], JObj [(''name'', JStr ''B'')]]
     = map Inr
        [user_card ''N/A'' ''C'' ''Email not available'' ''City not available''
           ''Username not available'',
         user_card ''N/A'' ''A'' ''Email not available'' ''City not available''
           ''Username not available'',
         user_card ''N/A'' ''B'' ''Email not available'' ''City not available''
           ''Username not available'']
   \<and> displayUsers
       [JObj [(''name'', JStr ''C'')], JObj [(''name'', JStr ''A'')], JObj [(''name'', JStr ''B'')]]
       idle_page
     = (None,
        idle_page\<lparr>container :=
          [user_card ''N/A'' ''C'' ''Email not available'' ''City not available''
             ''Username not available'',
           user_card ''N/A'' ''A'' ''Email not available'' ''City not available''
             ''Username not available'',
           user_card ''N/A'' ''B'' ''Email not available'' ''City not available''
             ''Username not available''],
          calls := calls idle_page @
            [ContainerHTML [],
             ContainerAppend
               [user_card ''N/A'' ''C'' ''Email not available'' ''City not available''
                  ''Username not available'',
                user_card ''N/A'' ''A'' ''Email not available'' ''City not available''
                  ''Username not available'',
                user_card ''N/A'' ''B'' ''Email not available'' ''City not available''
                  ''Username not available'']]\<rparr>)
   \<and> createUserCard JNull
     = Inl (TypeError (''Cannot read properties of null (reading ''
              @ [CHR 0x27] @ ''id'' @ [CHR 0x27] @ '')''))
   \<and> (\<exists>e. displayUsers
         [JObj [(''name'', JStr ''C'')], JObj [(''name'', JStr ''A'')],
          JObj [(''name'', JStr ''B'')], JNull]
         idle_page
       = (Some e, idle_page\<lparr>container := [], calls := calls idle_page @ [ContainerHTML []]\<rparr>))"
proof -
  have ne: "[JObj [(''name'', JStr ''C'')], JObj [(''name'', JStr ''A'')],
             JObj [(''name'', JStr ''B'')]] \<noteq> []"
    "[JObj [(''name'', JStr ''C'')], JObj [(''name'', JStr ''A'')],
      JObj [(''name'', JStr ''B'')], JNull] \<noteq> []"
    by simp_all
  have cards: "map createUserCard
       [JObj [(''name'', JStr ''C'')], JObj [(''name'', JStr ''A'')], JObj [(''name'', JStr ''B'')]]
     = map Inr
        [user_card ''N/A'' ''C'' ''Email not available'' ''City not available''
           ''Username not available'',
         user_card ''N/A'' ''A'' ''Email not available'' ''City not available''
           ''Username not available'',
         user_card ''N/A'' ''B'' ''Email not available'' ''City not available''
           ''Username not available'']"
    by (simp add: eval_card)
  have null: "createUserCard JNull
     = Inl (TypeError (''Cannot read properties of null (reading ''
              @ [CHR 0x27] @ ''id'' @ [CHR 0x27] @ '')''))"
    by (simp add: eval_card)
  then have throws: "\<exists>user \<in> set [JObj [(''name'', JStr ''C'')], JObj [(''name'', JStr ''A'')],
      JObj [(''name'', JStr ''B'')], JNull]. \<exists>e. createUserCard user = Inl e"
    by simp
  from displayUsers_one_card_per_record [OF ne(1), of _ idle_page]
    displayUsers_one_card_per_record [OF ne(2), of _ idle_page] cards null throws
  show ?thesis
    by blast
qed

text \<open>
  As first stated (every non-empty list of records) the property fails on a list that
  holds \<^verbatim>\<open>null\<close>, and on a record whose name is an object with a property
  \<^verbatim>\<open>toString\<close>: \<^verbatim>\<open>displayUsers\<close> throws, and no card is shown.
\<close>

theorem displayUsers_throwing_record_no_card:
  "displayUsers [JObj [(''name'', JStr ''Ann'')], JNull] idle_page
     = (Some (TypeError (''Cannot read properties of null (reading ''
                @ [CHR 0x27] @ ''id'' @ [CHR 0x27] @ '')'')),
        idle_page\<lparr>calls := [ContainerHTML []]\<rparr>)
   \<and> displayUsers [JObj [(''name'', JObj [(''toString'', JNum 1)])]] idle_page
     = (Some (TypeError ''Cannot convert object to primitive value''),
        idle_page\<lparr>calls := [ContainerHTML []]\<rparr>)"
  by (simp add: displayUsers_def eval_card idle_page_def set_innerHTML_def)

text \<open>
  Claim C6. On the empty list \<^verbatim>\<open>displayUsers\<close> clears the container, writes the one
  message that no users were found, appends no card, shows no error and throws nothing.
  In the whole operation on a response whose body is the empty array, the page ends with
  that message alone in the container and with the error banner hidden.
\<close>

theorem displayUsers_empty_list_shows_message:
  "displayUsers [] p =
     (None, p\<lparr>container := [Markup no_users_markup],
              calls := calls p @ [ContainerHTML [], ContainerHTML no_users_markup]\<rparr>)
   \<and> (ok r \<and> json r = Inr (JArr []) \<longrightarrow>
        fetchAndDisplayUsers (Resolves r) p =
          p\<lparr>loading_hidden := True, error_hidden := True,
            container := [Markup no_users_markup],
            calls := calls p @
              [LoadingShown, ErrorHidden, ContainerHTML [], TimerSet timeout_ms,
               FetchGet apiUrl [(''Accept'', ''application/json''),
                                (''Content-Type'', ''application/json'')],
               TimerCleared, ContainerHTML [], ContainerHTML no_users_markup,
               LoadingHidden]\<rparr>)"
  by (simp add: displayUsers_Nil fetchAndDisplayUsers_def fetchUsers_Resolves_array
      showLoading_def hideError_def clearContainer_def hideLoading_def)

text \<open>A response 200 whose body is \<^verbatim>\<open>[]\<close>, on a page at rest.\<close>

theorem displayUsers_empty_list_shows_message_witness:
  "ok \<lparr>status = 200, statusText = ''OK'', json = Inr (JArr [])\<rparr>
   \<and> json \<lparr>status = 200, statusText = ''OK'', json = Inr (JArr [])\<rparr> = Inr (JArr [])
   \<and> fetchAndDisplayUsers
        (Resolves \<lparr>status = 200, statusText = ''OK'', json = Inr (JArr [])\<rparr>) idle_page
      = \<lparr>loading_hidden = True, error_hidden = True, error_text = [],
         container = [Markup no_users_markup],
         calls =
           [LoadingShown, ErrorHidden, ContainerHTML [], TimerSet timeout_ms,
            FetchGet apiUrl [(''Accept'', ''application/json''),
                             (''Content-Type'', ''application/json'')],
            TimerCleared, ContainerHTML [], ContainerHTML no_users_markup, LoadingHidden]\<rparr>"
  using displayUsers_empty_list_shows_message
    [of idle_page "\<lparr>status = 200, statusText = ''OK'', json = Inr (JArr [])\<rparr>"]
  by (simp add: ok_def idle_page_def)

section \<open>Properties of the whole operation\<close>

text \<open>No step before the \<^verbatim>\<open>finally\<close> block hides the loading indicator.\<close>

lemma count_handleError:
  "count_list (calls (handleError e p)) LoadingHidden = count_list (calls p) LoadingHidden"
  by (simp add: handleError_def showError_def Let_def)

lemma count_displayUsers:
  "count_list (calls (snd (displayUsers users p))) LoadingHidden
     = count_list (calls p) LoadingHidden"
  by (simp add: displayUsers_def showNoUsersMessage_def Let_def split: sum.splits)

lemma count_fetchUsers:
  "count_list (calls (snd (fetchUsers ev p))) LoadingHidden = count_list (calls p) LoadingHidden"
  by (simp add: fetchUsers_def fetchUsers_try_def Let_def split: fetch_event.splits sum.splits)

lemma count_before_fetch:
  "count_list (calls (clearContainer (hideError (showLoading p)))) LoadingHidden
     = count_list (calls p) LoadingHidden"
  by (simp add: clearContainer_def hideError_def showLoading_def)

text \<open>
  A response with a status outside 200 to 299 is rethrown with the same prefix, so the
  branch of \<^verbatim>\<open>handleError\<close> for \<^verbatim>\<open>HTTP\<close> is not the one taken for it.
\<close>

lemma http_status_shows_unable_to_connect:
  assumes "\<not> ok r"
  shows "fst (fetchUsers (Resolves r) p)
           = Inl (Error (''Failed to fetch users: HTTP '' @ string_of_nat (status r) @ '': ''
                          @ statusText r))
       \<and> error_text (fetchAndDisplayUsers (Resolves r) p)
           = warning_marker
             @ '' Unable to connect to the server. Please check your internet connection.''"
  using assms
  by (simp add: fetchAndDisplayUsers_def fetchUsers_def fetchUsers_try_def fetchUsers_catch_def
      handleError_def showError_def hideLoading_def Error_def Let_def)

text \<open>
  Claim C4. Whatever happens to the request and whatever the response holds (a list that
  is displayed, a failure of any kind, a record on which rendering throws), one run of
  \<^verbatim>\<open>fetchAndDisplayUsers\<close> ends with the loading indicator hidden, hides it as its
  last call, and hides it exactly once.
\<close>

theorem fetchAndDisplayUsers_hides_loading_once:
  "loading_hidden (fetchAndDisplayUsers ev p)
   \<and> last (calls (fetchAndDisplayUsers ev p)) = LoadingHidden
   \<and> count_list (calls (fetchAndDisplayUsers ev p)) LoadingHidden
       = Suc (count_list (calls p) LoadingHidden)"
proof -
  define p1 where "p1 = clearContainer (hideError (showLoading p))"
  define p2 where "p2 =
    (case fetchUsers ev p1 of
       (Inl error, p') \<Rightarrow> handleError error p'
     | (Inr users, p') \<Rightarrow>
         (case displayUsers users p' of
            (None, p'') \<Rightarrow> p''
          | (Some error, p'') \<Rightarrow> handleError error p''))"
  have run: "fetchAndDisplayUsers ev p = hideLoading p2"
    by (simp add: fetchAndDisplayUsers_def p1_def p2_def)
  have "count_list (calls p2) LoadingHidden = count_list (calls p1) LoadingHidden"
  proof (cases "fetchUsers ev p1")
    case (Pair res p')
    then have p': "count_list (calls p') LoadingHidden = count_list (calls p1) LoadingHidden"
      using count_fetchUsers [of ev p1] by simp
    show ?thesis
    proof (cases res)
      case (Inl error)
      with Pair p' show ?thesis
        by (simp add: p2_def count_handleError)
    next
      case (Inr users)
      obtain thrown p'' where d: "displayUsers users p' = (thrown, p'')"
        by (cases "displayUsers users p'")
      then have "count_list (calls p'') LoadingHidden = count_list (calls p') LoadingHidden"
        using count_displayUsers [of users p'] by simp
      with Pair Inr d p' show ?thesis
        by (cases thrown) (simp_all add: p2_def count_handleError)
    qed
  qed
  then have "count_list (calls p2) LoadingHidden = count_list (calls p) LoadingHidden"
    by (simp add: p1_def count_before_fetch)
  then show ?thesis
    by (simp add: run hideLoading_def)
qed

text \<open>
  A run in which rendering throws: the body is the array that holds \<^verbatim>\<open>null\<close>. The
  exception is handled, and the loading indicator is hidden after it.
\<close>

theorem fetchAndDisplayUsers_hides_loading_once_witness:
  "loading_hidden
     (fetchAndDisplayUsers
        (Resolves \<lparr>status = 200, statusText = ''OK'', json = Inr (JArr [JNull])\<rparr>) idle_page)
   \<and> calls
       (fetchAndDisplayUsers
          (Resolves \<lparr>status = 200, statusText = ''OK'', json = Inr (JArr [JNull])\<rparr>) idle_page)
     = [LoadingShown, ErrorHidden, ContainerHTML [], TimerSet timeout_ms,
        FetchGet apiUrl [(''Accept'', ''application/json''),
                         (''Content-Type'', ''application/json'')],
        TimerCleared, ContainerHTML [],
        ErrorShown (warning_marker @ '' An unexpected error occurred. Please try again.''),
        LoadingHidden]"
  using fetchAndDisplayUsers_hides_loading_once
    [of "Resolves \<lparr>status = 200, statusText = ''OK'', json = Inr (JArr [JNull])\<rparr>" idle_page]
  by (simp add: fetchAndDisplayUsers_def fetchUsers_def fetchUsers_try_def ok_def idle_page_def
      displayUsers_def eval_card handleError_def showError_def hideLoading_def clearContainer_def
      hideError_def showLoading_def set_innerHTML_def Let_def)

text \<open>
  Claim C2, evaluated on the code. When \<^verbatim>\<open>fetch\<close> rejects with a \<^verbatim>\<open>TypeError\<close> (the
  transport failed before any response), \<^verbatim>\<open>fetchUsers\<close> throws an error whose message
  is \<^verbatim>\<open>Network error: Please check your internet connection\<close>, and the sentence shown
  is \<^verbatim>\<open>An unexpected error occurred. Please try again.\<close>, not the sentence of the claim
  (\<^verbatim>\<open>Unable to connect to the server. Please check your internet connection.\<close>): the
  rewritten message holds none of the three substrings \<^verbatim>\<open>handleError\<close> looks for.
\<close>

theorem network_failure_shows_unexpected_error:
  assumes "name e = ''TypeError''"
  shows "fst (fetchUsers (Rejects e) p)
           = Inl (Error ''Network error: Please check your internet connection'')
       \<and> error_text (fetchAndDisplayUsers (Rejects e) p)
           = warning_marker @ '' An unexpected error occurred. Please try again.''"
  using assms
  by (simp add: fetchAndDisplayUsers_def fetchUsers_def fetchUsers_try_def fetchUsers_catch_def
      handleError_def showError_def hideLoading_def Error_def Let_def)

text \<open>The rejection of a browser that cannot reach the server.\<close>

theorem network_failure_shows_unexpected_error_witness:
  "name (TypeError ''Failed to fetch'') = ''TypeError''
   \<and> fst (fetchUsers (Rejects (TypeError ''Failed to fetch'')) idle_page)
       = Inl (Error ''Network error: Please check your internet connection'')
   \<and> error_text (fetchAndDisplayUsers (Rejects (TypeError ''Failed to fetch'')) idle_page)
       = warning_marker @ '' An unexpected error occurred. Please try again.''"
  using network_failure_shows_unexpected_error [of "TypeError ''Failed to fetch''" idle_page]
  by (simp add: TypeError_def)

text \<open>
  Claim C3, evaluated on the code. When the response is successful and its body parses
  to a value that is not an array, \<^verbatim>\<open>fetchUsers\<close> throws an error whose message is
  \<^verbatim>\<open>Failed to fetch users: Invalid data format: Expected an array of users\<close>, and the
  sentence shown is \<^verbatim>\<open>Unable to connect to the server. Please check your internet
  connection.\<close>, not the sentence of the claim (\<^verbatim>\<open>An unexpected error occurred. Please
  try again.\<close>): the prefix that the \<^verbatim>\<open>catch\<close> block of \<^verbatim>\<open>fetchUsers\<close> adds holds
  the substring \<^verbatim>\<open>Failed to fetch\<close>, which \<^verbatim>\<open>handleError\<close> looks for first.
\<close>

theorem non_array_body_shows_unable_to_connect:
  assumes "ok r" and "json r = Inr v" and "\<not> is_array v"
  shows "fst (fetchUsers (Resolves r) p)
           = Inl (Error
               ''Failed to fetch users: Invalid data format: Expected an array of users'')
       \<and> error_text (fetchAndDisplayUsers (Resolves r) p)
           = warning_marker
             @ '' Unable to connect to the server. Please check your internet connection.''"
  using assms
  by (simp add: fetchAndDisplayUsers_def fetchUsers_def fetchUsers_try_def fetchUsers_catch_def
      handleError_def showError_def hideLoading_def Error_def Let_def)

text \<open>A response 200 whose body is the object \<^verbatim>\<open>{"users": []}\<close>.\<close>

theorem non_array_body_shows_unable_to_connect_witness:
  "ok \<lparr>status = 200, statusText = ''OK'', json = Inr (JObj [(''users'', JArr [])])\<rparr>
   \<and> \<not> is_array (JObj [(''users'', JArr [])])
   \<and> fst (fetchUsers
        (Resolves \<lparr>status = 200, statusText = ''OK'',
                    json = Inr (JObj [(''users'', JArr [])])\<rparr>) idle_page)
       = Inl (Error ''Failed to fetch users: Invalid data format: Expected an array of users'')
   \<and> error_text (fetchAndDisplayUsers
        (Resolves \<lparr>status = 200, statusText = ''OK'',
                    json = Inr (JObj [(''users'', JArr [])])\<rparr>) idle_page)
       = warning_marker
         @ '' Unable to connect to the server. Please check your internet connection.''"
  using non_array_body_shows_unable_to_connect
    [of "\<lparr>status = 200, statusText = ''OK'', json = Inr (JObj [(''users'', JArr [])])\<rparr>"
        "JObj [(''users'', JArr [])]" idle_page]
  by (simp add: ok_def)

text \<open>
  Claim C9, as amended. When the timer of 10000 ms runs while the request is pending, the
  request is aborted, \<^verbatim>\<open>fetchUsers\<close> throws an error whose message is
  \<^verbatim>\<open>Request timeout: The server took too long to respond\<close>, and the sentence shown is
  \<^verbatim>\<open>Request timed out. Please check your connection and try again.\<close>
\<close>

theorem timeout_aborts_and_shows_timeout_sentence:
  "fetchUsers TimerFirst p =
     (Inl (Error ''Request timeout: The server took too long to respond''),
      p\<lparr>calls := calls p @
        [TimerSet 10000,
         FetchGet apiUrl [(''Accept'', ''application/json''),
                          (''Content-Type'', ''application/json'')],
         RequestAborted]\<rparr>)
   \<and> error_text (fetchAndDisplayUsers TimerFirst p)
        = warning_marker @ '' Request timed out. Please check your connection and try again.''
   \<and> \<not> error_hidden (fetchAndDisplayUsers TimerFirst p)
   \<and> count_list (calls (fetchAndDisplayUsers TimerFirst p)) RequestAborted
        = Suc (count_list (calls p) RequestAborted)"
  by (simp add: fetchAndDisplayUsers_def fetchUsers_def fetchUsers_try_def fetchUsers_catch_def
      handleError_def showError_def hideLoading_def Error_def Let_def abort_error_def
      timeout_ms_def clearContainer_def hideError_def showLoading_def)

text \<open>
  As first stated the message of the failure is \<^verbatim>\<open>request timeout\<close>; the message of the
  error that \<^verbatim>\<open>fetchUsers\<close> throws is another string.
\<close>

theorem timeout_message_is_not_request_timeout:
  "fst (fetchUsers TimerFirst idle_page)
     = Inl (Error ''Request timeout: The server took too long to respond'')
   \<and> message (Error ''Request timeout: The server took too long to respond'')
       \<noteq> ''request timeout''"
  by (simp add: fetchUsers_def fetchUsers_try_def fetchUsers_catch_def abort_error_def
      Error_def)

end
